theory Spec2Isabelle
  imports Complex_Main
begin

section \<open>Python exceptions as values\<close>

text \<open>
  The notebooks are Python. A call either returns a value or raises; the model returns
  \<open>Inr\<close> of the value or \<open>Inl\<close> of the exception. \<open>NameError\<close> carries the name
  that was looked up and is not bound. \<open>NameError\<close>, \<open>TypeError\<close>, \<open>IndexError\<close>
  and \<open>ValueError\<close> are Python's and numpy's, \<open>CircuitError\<close> and \<open>AquaError\<close> the
  SDK's. \<open>DimensionError\<close> is the failure the specification names for a bad qubit
  index or arity; it is listed so that the operations below can be shown never to
  produce it.
\<close>

datatype error =
  NameError string | TypeError | IndexError | ValueError | CircuitError | AquaError
  | DimensionError

type_synonym 'a result = "error + 'a"

definition and_then :: "'a result \<Rightarrow> ('a \<Rightarrow> 'b result) \<Rightarrow> 'b result" where
  "and_then m f = (case m of Inl e \<Rightarrow> Inl e | Inr v \<Rightarrow> f v)"

section \<open>The circuit primitives the logic-gate notebook calls\<close>

text \<open>
  \<open>Marianna Logic gates.ipynb\<close> builds each gate from a \<open>QuantumRegister\<close>, a
  \<open>ClassicalRegister\<close> and a \<open>QuantumCircuit\<close>, appends \<open>x\<close>, \<open>cx\<close> and
  \<open>measure\<close> instructions and runs one shot on the \<open>qasm_simulator\<close>. A register is
  its size. \<open>q[k]\<close> indexes the register's list of bits as Python indexes a list: an
  index \<open>k\<close> with \<open>-size \<le> k < size\<close> names a bit, a negative one counting from the
  end, and any other raises \<open>IndexError\<close>. The circuit keeps its instructions in the
  order they were appended.
\<close>

datatype instruction = XGate nat | CnotGate nat nat | Measure nat nat

record QuantumCircuit =
  qreg_size :: nat
  creg_size :: nat
  data :: "instruction list"

definition QuantumRegister :: "nat \<Rightarrow> nat" where
  "QuantumRegister n = n"

definition ClassicalRegister :: "nat \<Rightarrow> nat" where
  "ClassicalRegister n = n"

definition new_circuit :: "nat \<Rightarrow> nat \<Rightarrow> QuantumCircuit" where
  "new_circuit q c = \<lparr>qreg_size = q, creg_size = c, data = []\<rparr>"

definition getitem_reg :: "nat \<Rightarrow> int \<Rightarrow> nat result" where
  "getitem_reg reg k =
     (let n = int reg in
      if - n \<le> k \<and> k < n then Inr (nat (if k < 0 then k + n else k))
      else Inl IndexError)"

definition append_instruction :: "QuantumCircuit \<Rightarrow> instruction \<Rightarrow> QuantumCircuit" where
  "append_instruction qc i = qc\<lparr>data := data qc @ [i]\<rparr>"

text \<open>
  \<open>qc.x(qubit)\<close> takes one qubit. \<open>qc.cx(ctl, tgt)\<close> takes exactly two: Python raises
  \<open>TypeError\<close> on a call with any other number of positional arguments, before the
  method body runs, so the model takes the argument list as it is written at the call.
  When an instruction is appended the circuit refuses, with \<open>CircuitError\<close>, a qubit or
  a classical bit that is outside its registers, and after that two equal qubits
  (duplicate qubit arguments).
\<close>

definition qc_x :: "QuantumCircuit \<Rightarrow> nat \<Rightarrow> QuantumCircuit result" where
  "qc_x qc qubit =
     (if qubit < qreg_size qc then Inr (append_instruction qc (XGate qubit))
      else Inl CircuitError)"

definition qc_cx :: "QuantumCircuit \<Rightarrow> nat list \<Rightarrow> QuantumCircuit result" where
  "qc_cx qc args =
     (case args of
        [ctl, tgt] \<Rightarrow>
          if \<not> (ctl < qreg_size qc \<and> tgt < qreg_size qc) then Inl CircuitError
          else if ctl = tgt then Inl CircuitError
          else Inr (append_instruction qc (CnotGate ctl tgt))
      | _ \<Rightarrow> Inl TypeError)"

definition qc_measure :: "QuantumCircuit \<Rightarrow> nat \<Rightarrow> nat \<Rightarrow> QuantumCircuit result" where
  "qc_measure qc qubit cbit =
     (if qubit < qreg_size qc \<and> cbit < creg_size qc
      then Inr (append_instruction qc (Measure qubit cbit))
      else Inl CircuitError)"

subsection \<open>One shot of the simulator\<close>

text \<open>
  Every qubit starts in \<open>|0\<rangle>\<close> and every classical bit at 0. The circuits of this
  notebook hold only \<open>x\<close>, \<open>cx\<close> and \<open>measure\<close>, which map a computational basis
  state to a computational basis state, so the register is a list of bits and a
  measurement has one outcome. An instruction naming a bit outside its register makes
  the run fail. The result string shows the classical register with bit 0 rightmost; a
  circuit without a measurement reports its classical register as it started, all
  zeros.
\<close>

fun apply_instruction ::
  "instruction \<Rightarrow> bool list \<times> bool list \<Rightarrow> (bool list \<times> bool list) result" where
  "apply_instruction (XGate i) (qs, cs) =
     (if i < length qs then Inr (qs[i := \<not> qs ! i], cs) else Inl CircuitError)"
| "apply_instruction (CnotGate c t) (qs, cs) =
     (if c < length qs \<and> t < length qs
      then Inr (if qs ! c then qs[t := \<not> qs ! t] else qs, cs)
      else Inl CircuitError)"
| "apply_instruction (Measure q c) (qs, cs) =
     (if q < length qs \<and> c < length cs then Inr (qs, cs[c := qs ! q])
      else Inl CircuitError)"

fun run_instructions ::
  "instruction list \<Rightarrow> bool list \<times> bool list \<Rightarrow> (bool list \<times> bool list) result" where
  "run_instructions [] st = Inr st"
| "run_instructions (i # is) st =
     (case apply_instruction i st of Inl e \<Rightarrow> Inl e | Inr st' \<Rightarrow> run_instructions is st')"

definition bitstring :: "bool list \<Rightarrow> string" where
  "bitstring cs = map (\<lambda>b. if b then CHR ''1'' else CHR ''0'') (rev cs)"

text \<open>
  \<open>execute(qc, backend, shots=1)\<close> followed by \<open>next(iter(job.result().get_counts()))\<close>
  or by \<open>job.result().get_memory()[0]\<close>: with one shot both are the bit string of that
  shot.
\<close>

definition execute_one_shot :: "QuantumCircuit \<Rightarrow> string result" where
  "execute_one_shot qc =
     (case run_instructions (data qc)
             (replicate (qreg_size qc) False, replicate (creg_size qc) False) of
        Inl e \<Rightarrow> Inl e
      | Inr (qs, cs) \<Rightarrow> Inr (bitstring cs))"

section \<open>The gates of the logic-gate notebook\<close>

text \<open>
  Each function is split where the source goes from building \<open>qc\<close> to running it:
  \<open>f_qc\<close> is the circuit the statements build, \<open>f\<close> runs it.
\<close>

definition NOT_qc :: "string \<Rightarrow> QuantumCircuit result" where
  "NOT_qc input =
     (let q = QuantumRegister 1; c = ClassicalRegister 1; qc = new_circuit q c in
      and_then (if input = ''1'' then and_then (getitem_reg q 0) (qc_x qc) else Inr qc)
        (\<lambda>qc. and_then (and_then (getitem_reg q 0) (qc_x qc))
        (\<lambda>qc. and_then (getitem_reg q 0)
        (\<lambda>q0. and_then (getitem_reg c 0)
        (\<lambda>c0. qc_measure qc q0 c0)))))"

definition NOT :: "string \<Rightarrow> string result" where
  "NOT input = and_then (NOT_qc input) execute_one_shot"

definition XOR_qc :: "string \<Rightarrow> string \<Rightarrow> QuantumCircuit result" where
  "XOR_qc input1 input2 =
     (let q = QuantumRegister 2; c = ClassicalRegister 1; qc = new_circuit q c in
      and_then (if input1 \<noteq> input2 then and_then (getitem_reg q 0) (qc_x qc) else Inr qc)
        (\<lambda>qc. and_then (getitem_reg q 0)
        (\<lambda>q0. and_then (getitem_reg q 1)
        (\<lambda>q1. and_then (qc_cx qc [q0, q1])
        (\<lambda>qc. and_then (getitem_reg q 1)
        (\<lambda>q1. and_then (getitem_reg c 0)
        (\<lambda>c0. qc_measure qc q1 c0)))))))"

definition XOR :: "string \<Rightarrow> string \<Rightarrow> string result" where
  "XOR input1 input2 = and_then (XOR_qc input1 input2) execute_one_shot"

text \<open>
  The cells that define \<open>AND\<close> and \<open>NAND\<close> are not Python: the condition is written
  \<open>if input1=="1" AND\<close> (then \<open>input2="1":\<close> on the next line) and
  \<open>if input1=="1" OR\<close>, and the \<open>if\<close> has only comments for a body. The cell stops
  with a SyntaxError and binds no function, so there is nothing of \<open>AND\<close> or \<open>NAND\<close>
  to embed. \<open>OR\<close> parses; its \<open>cx\<close> is called with three qubits.
\<close>

definition OR_qc :: "string \<Rightarrow> string \<Rightarrow> QuantumCircuit result" where
  "OR_qc input1 input2 =
     (let q = QuantumRegister 3; c = ClassicalRegister 1; qc = new_circuit q c in
      and_then (if input1 \<noteq> ''0'' \<or> input2 \<noteq> ''0''
                then and_then (getitem_reg q 0) (qc_x qc) else Inr qc)
        (\<lambda>qc. and_then (getitem_reg q 0)
        (\<lambda>q0. and_then (getitem_reg q 1)
        (\<lambda>q1. and_then (getitem_reg q 2)
        (\<lambda>q2. and_then (qc_cx qc [q0, q1, q2])
        (\<lambda>qc. and_then (getitem_reg q 2)
        (\<lambda>q2. and_then (getitem_reg c 0)
        (\<lambda>c0. qc_measure qc q2 c0))))))))"

definition OR :: "string \<Rightarrow> string \<Rightarrow> string result" where
  "OR input1 input2 = and_then (OR_qc input1 input2) execute_one_shot"

text \<open>\<open>FANOUT\<close> creates the registers and the circuit and runs it; nothing is appended.\<close>

definition FANOUT_qc :: "string \<Rightarrow> QuantumCircuit result" where
  "FANOUT_qc input =
     (let q = QuantumRegister 3; c = ClassicalRegister 2; qc = new_circuit q c in Inr qc)"

definition FANOUT :: "string \<Rightarrow> string result" where
  "FANOUT input = and_then (FANOUT_qc input) execute_one_shot"

section \<open>The operators of the variational-circuits notebook\<close>

text \<open>
  \<open>np.zeros(n)\<close> is an array of \<open>n\<close> zeros and refuses a negative \<open>n\<close>. An index
  \<open>i\<close> into an array of length \<open>n\<close> is accepted when \<open>-n \<le> i < n\<close>, a negative one
  counting from the end, and raises \<open>IndexError\<close> otherwise.
\<close>

definition np_zeros :: "int \<Rightarrow> real list result" where
  "np_zeros n = (if n < 0 then Inl ValueError else Inr (replicate (nat n) 0))"

definition np_position :: "'a list \<Rightarrow> int \<Rightarrow> nat result" where
  "np_position a i =
     (let n = int (length a) in
      if - n \<le> i \<and> i < n then Inr (nat (if i < 0 then i + n else i))
      else Inl IndexError)"

definition np_getitem :: "'a list \<Rightarrow> int \<Rightarrow> 'a result" where
  "np_getitem a i = and_then (np_position a i) (\<lambda>k. Inr (a ! k))"

definition np_setitem :: "'a list \<Rightarrow> int \<Rightarrow> 'a \<Rightarrow> 'a list result" where
  "np_setitem a i v = and_then (np_position a i) (\<lambda>k. Inr (a[k := v]))"

text \<open>
  \<open>Pauli(z, x)\<close> reads its two arrays as booleans: bit \<open>i\<close> of \<open>z\<close> puts a
  \<open>\<sigma>\<^sup>Z\<close> on qubit \<open>i\<close>, bit \<open>i\<close> of \<open>x\<close> a \<open>\<sigma>\<^sup>X\<close>.
\<close>

record Pauli =
  z_bits :: "bool list"
  x_bits :: "bool list"

definition new_Pauli :: "real list \<Rightarrow> real list \<Rightarrow> Pauli" where
  "new_Pauli z x = \<lparr>z_bits = map (\<lambda>v. v \<noteq> 0) z, x_bits = map (\<lambda>v. v \<noteq> 0) x\<rparr>"

text \<open>
  A \<open>WeightedPauliOperator\<close> holds a list of \<open>[coefficient, Pauli]\<close> pairs. Its
  constructor simplifies the list it is given: going through the pairs in order, a
  Pauli that is already in the result has its coefficient added to the one there, a new
  one is appended; then the pairs whose coefficient is zero are dropped. An operator
  whose list is empty is the SDK's empty operator.
\<close>

type_synonym WeightedPauliOperator = "(real \<times> Pauli) list"

fun add_pauli :: "real \<times> Pauli \<Rightarrow> WeightedPauliOperator \<Rightarrow> WeightedPauliOperator" where
  "add_pauli (w, P) [] = [(w, P)]"
| "add_pauli (w, P) ((w', P') # ts) =
     (if P' = P then (w' + w, P') # ts else (w', P') # add_pauli (w, P) ts)"

definition simplify :: "WeightedPauliOperator \<Rightarrow> WeightedPauliOperator" where
  "simplify paulis =
     filter (\<lambda>(w, P). w \<noteq> 0) (foldl (\<lambda>merged t. add_pauli t merged) [] paulis)"

definition new_WeightedPauliOperator :: "(real \<times> Pauli) list \<Rightarrow> WeightedPauliOperator" where
  "new_WeightedPauliOperator paulis = simplify paulis"

definition pauli_x :: "int \<Rightarrow> int \<Rightarrow> real \<Rightarrow> WeightedPauliOperator result" where
  "pauli_x n_qubits qubit_index coeff =
     and_then (np_zeros n_qubits)
       (\<lambda>xr. and_then (np_zeros n_qubits)
       (\<lambda>yr. and_then (np_getitem yr qubit_index)
       (\<lambda>v. and_then (np_setitem yr qubit_index (v + 1))
       (\<lambda>yr. let pauli = new_Pauli xr yr;
                 paulioperator =
                   new_WeightedPauliOperator [(0, new_Pauli xr yr), (coeff, pauli)]
             in Inr paulioperator))))"

text \<open>
  \<open>pauli_z\<close> sets the bit of \<open>xr\<close>, builds a \<open>Pauli\<close> under the name
  \<open>paulioperator\<close> and then reads \<open>pauli\<close>, a name that is bound neither in the
  function nor in the module.
\<close>

definition pauli_z :: "int \<Rightarrow> int \<Rightarrow> real \<Rightarrow> WeightedPauliOperator result" where
  "pauli_z n_qubits qubit_index coeff =
     and_then (np_zeros n_qubits)
       (\<lambda>xr. and_then (np_zeros n_qubits)
       (\<lambda>yr. and_then (np_getitem xr qubit_index)
       (\<lambda>v. and_then (np_setitem xr qubit_index (v + 1))
       (\<lambda>xr. let paulioperator = new_Pauli xr yr in Inl (NameError ''pauli'')))))"

text \<open>
  \<open>product_pauli_z\<close> reads the global \<open>n_qubits\<close>, fills row 0 of \<open>particle1\<close> and
  then reads \<open>p1\<close>, a name no cell binds.
\<close>

definition np_zeros2 :: "int \<Rightarrow> int \<Rightarrow> real list list result" where
  "np_zeros2 m n =
     (if m < 0 \<or> n < 0 then Inl ValueError
      else Inr (replicate (nat m) (replicate (nat n) 0)))"

definition product_pauli_z :: "int \<Rightarrow> int \<Rightarrow> int \<Rightarrow> real \<Rightarrow> WeightedPauliOperator result" where
  "product_pauli_z n_qubits q1 q2 coeff =
     and_then (np_zeros n_qubits)
       (\<lambda>zero_n_qubit. and_then (np_zeros2 n_qubits n_qubits)
       (\<lambda>particle1. and_then (np_zeros2 n_qubits n_qubits)
       (\<lambda>particle2. and_then (np_getitem particle1 0)
       (\<lambda>row. and_then (np_getitem row q1)
       (\<lambda>v. and_then (np_setitem row q1 (v + 1))
       (\<lambda>row. and_then (np_getitem row q1)
       (\<lambda>v. and_then (np_setitem row q2 (v + 1))
       (\<lambda>row. Inl (NameError ''p1'')))))))))"

section \<open>The circuit of the variational-circuits notebook\<close>

text \<open>
  The functions of this notebook read the module's globals \<open>Hc\<close>, \<open>Hm\<close>, \<open>qr\<close>,
  \<open>circuit_init\<close> and \<open>p\<close> when they are called; a name that no cell has bound
  raises \<open>NameError\<close> at the moment it is read. The globals are a record; \<open>None\<close> is
  an unbound name.

  Two operations belong to the SDK and are not in the repository: the operator's
  \<open>evolve\<close> method and \<open>+\<close> on circuits. Either can raise (\<open>evolve\<close> refuses the
  empty operator with an \<open>AquaError\<close>, for one). They are parameters of the model:
  \<open>op_evolve\<close> takes the operator and the keyword arguments \<open>evo_time\<close>,
  \<open>num_time_slices\<close>, \<open>quantum_registers\<close>, \<open>expansion_mode\<close> and
  \<open>expansion_order\<close>, in this order; \<open>state_in\<close> is always \<open>None\<close>. Hamiltonians
  (\<open>'h\<close>) and circuits (\<open>'c\<close>) are whatever the SDK makes them.
\<close>

record ('h, 'c) sdk =
  op_evolve :: "'h \<Rightarrow> real \<Rightarrow> nat \<Rightarrow> nat \<Rightarrow> string \<Rightarrow> nat \<Rightarrow> 'c result"
  circuit_add :: "'c \<Rightarrow> 'c \<Rightarrow> 'c result"

record ('h, 'c) globals =
  Hc :: "'h option"
  Hm :: "'h option"
  qr :: "nat option"
  circuit_init :: "'c option"
  p :: int

definition lookup :: "string \<Rightarrow> 'a option \<Rightarrow> 'a result" where
  "lookup name v = (case v of None \<Rightarrow> Inl (NameError name) | Some a \<Rightarrow> Inr a)"

definition list_getitem :: "'a list \<Rightarrow> nat \<Rightarrow> 'a result" where
  "list_getitem xs i = (if i < length xs then Inr (xs ! i) else Inl IndexError)"

definition evolve :: "('h, 'c) sdk \<Rightarrow> 'h \<Rightarrow> real \<Rightarrow> nat \<Rightarrow> 'c result" where
  "evolve s hamiltonian angle r = op_evolve s hamiltonian angle 1 r ''trotter'' 3"

text \<open>
  One element of the list comprehension of \<open>create_circuit\<close>:
  \<open>evolve(Hc, beta[i], qr) + evolve(Hm, gamma[i], qr)\<close>. Python reads the names and
  subscripts of the first call, makes the call, does the same for the second and then
  adds.
\<close>

definition create_circuit_term ::
  "('h, 'c) sdk \<Rightarrow> ('h, 'c) globals \<Rightarrow> real list \<Rightarrow> real list \<Rightarrow> nat \<Rightarrow> 'c result" where
  "create_circuit_term s g beta gamma i =
     and_then (lookup ''Hc'' (Hc g))
       (\<lambda>hc. and_then (list_getitem beta i)
       (\<lambda>b. and_then (lookup ''qr'' (qr g))
       (\<lambda>r1. and_then (evolve s hc b r1)
       (\<lambda>e1. and_then (lookup ''Hm'' (Hm g))
       (\<lambda>hm. and_then (list_getitem gamma i)
       (\<lambda>c. and_then (lookup ''qr'' (qr g))
       (\<lambda>r2. and_then (evolve s hm c r2)
       (\<lambda>e2. circuit_add s e1 e2))))))))"

fun comprehension :: "('a \<Rightarrow> 'b result) \<Rightarrow> 'a list \<Rightarrow> 'b list result" where
  "comprehension f [] = Inr []"
| "comprehension f (x # xs) =
     (case f x of
        Inl e \<Rightarrow> Inl e
      | Inr y \<Rightarrow> (case comprehension f xs of Inl e \<Rightarrow> Inl e | Inr ys \<Rightarrow> Inr (y # ys)))"

text \<open>\<open>sum(items, start)\<close>: the items are added to \<open>start\<close> from left to right.\<close>

fun py_sum :: "('h, 'c) sdk \<Rightarrow> 'c list \<Rightarrow> 'c \<Rightarrow> 'c result" where
  "py_sum s [] acc = Inr acc"
| "py_sum s (t # ts) acc =
     (case circuit_add s acc t of Inl e \<Rightarrow> Inl e | Inr acc' \<Rightarrow> py_sum s ts acc')"

definition create_circuit ::
  "('h, 'c) sdk \<Rightarrow> ('h, 'c) globals \<Rightarrow> real list \<Rightarrow> real list \<Rightarrow> 'c result" where
  "create_circuit s g beta gamma =
     and_then (comprehension (create_circuit_term s g beta gamma) [0 ..< nat (p g)])
       (\<lambda>terms. and_then (lookup ''circuit_init'' (circuit_init g))
       (\<lambda>init. py_sum s terms init))"

text \<open>
  \<open>evaluate_circuit\<close> unpacks its argument into two values, builds the circuit and
  ends: the body has no \<open>return\<close>, so a call that does not raise returns \<open>None\<close>.
\<close>

datatype pyvalue = PyNone | PyFloat real

definition evaluate_circuit ::
  "('h, 'c) sdk \<Rightarrow> ('h, 'c) globals \<Rightarrow> real list \<Rightarrow> pyvalue result" where
  "evaluate_circuit s g beta_gamma =
     (case beta_gamma of
        [x, y] \<Rightarrow> and_then (create_circuit s g [x] [y]) (\<lambda>quantum_circuit. Inr PyNone)
      | _ \<Rightarrow> Inl ValueError)"

text \<open>
  The globals as the notebook's cells leave them: \<open>p = 1\<close>; \<open>circuit_init\<close> is the
  circuit the SDK makes on the register \<open>qub\<close> and \<open>Hm\<close> the sum it computes from
  \<open>pauli_x\<close> (both parameters here); \<open>qr\<close> is assigned by no cell (the register is
  named \<open>qub\<close>); and the cell that assigns \<open>Hc\<close> calls \<open>product_pauli_z\<close>, which
  raises, so \<open>Hc\<close> stays unbound.
\<close>

definition notebook_globals :: "'h \<Rightarrow> 'c \<Rightarrow> ('h, 'c) globals" where
  "notebook_globals hm init =
     \<lparr>Hc = None, Hm = Some hm, qr = None, circuit_init = Some init, p = 1\<rparr>"


section \<open>The gates compute what the notebook says\<close>

lemmas builder_defs =
  and_then_def getitem_reg_def qc_x_def qc_cx_def qc_measure_def append_instruction_def
  new_circuit_def QuantumRegister_def ClassicalRegister_def

lemmas run_defs = execute_one_shot_def bitstring_def

text \<open>
  C3. NOT on the binary string \<open>'0'\<close> returns \<open>'1'\<close>, and on \<open>'1'\<close> returns \<open>'0'\<close>.
\<close>

theorem NOT_truth_table: "NOT ''0'' = Inr ''1'' \<and> NOT ''1'' = Inr ''0''"
  by (simp add: NOT_def NOT_qc_def builder_defs run_defs)

text \<open>
  C4. XOR returns \<open>'0'\<close> when its two inputs are equal and \<open>'1'\<close> when they differ, on
  all four combinations of \<open>'0'\<close> and \<open>'1'\<close>.
\<close>

theorem XOR_truth_table:
  "XOR ''0'' ''0'' = Inr ''0'' \<and> XOR ''1'' ''1'' = Inr ''0'' \<and>
   XOR ''0'' ''1'' = Inr ''1'' \<and> XOR ''1'' ''0'' = Inr ''1''"
  by (simp add: XOR_def XOR_qc_def builder_defs run_defs)

text \<open>
  The source compares the two inputs as strings before anything is encoded, so the same
  holds for any two strings.
\<close>

lemma XOR_any_strings: "XOR a b = Inr (if a = b then ''0'' else ''1'')"
  by (simp add: XOR_def XOR_qc_def builder_defs run_defs)

section \<open>OR stops at its three-qubit cx\<close>

text \<open>
  C1 asks AND, OR and NAND for the truth tables of the gates, as the notebook's own
  headings do (for OR: the output is \<open>'1'\<close> if either input is \<open>'1'\<close>). On the code,
  OR raises \<open>TypeError\<close> for every pair of inputs, at \<open>qc.cx(q[0],q[1],q[2])\<close>, and
  returns no string; AND and NAND are not defined at all.
\<close>

theorem OR_raises_TypeError: "OR input1 input2 = Inl TypeError"
  by (simp add: OR_def OR_qc_def builder_defs Let_def)

section \<open>FANOUT runs an empty circuit\<close>

text \<open>
  C10, as the code has it. FANOUT builds the circuit on three qubits and two classical
  bits with no instruction, whatever its argument, and its result is \<open>'00'\<close> for every
  input: it does not depend on the input, and it is not two copies of the input
  \<open>'1'\<close>.
\<close>

theorem FANOUT_constant:
  "FANOUT_qc input = Inr \<lparr>qreg_size = 3, creg_size = 2, data = []\<rparr> \<and>
   FANOUT input = Inr ''00'' \<and>
   FANOUT ''1'' \<noteq> Inr (''1'' @ ''1'')"
  by (simp add: FANOUT_def FANOUT_qc_def builder_defs run_defs eval_nat_numeral)

text \<open>
  The claim adds that FANOUT never produces two copies of its input. For the input
  \<open>'0'\<close> the constant result is exactly that.
\<close>

theorem FANOUT_zero_is_two_copies: "FANOUT ''0'' = Inr (''0'' @ ''0'')"
  by (simp add: FANOUT_def FANOUT_qc_def builder_defs run_defs eval_nat_numeral)

section \<open>Index and arity checks\<close>

lemma np_zeros_nonneg: "0 \<le> n \<Longrightarrow> np_zeros n = Inr (replicate (nat n) 0)"
  by (simp add: np_zeros_def)

lemma np_position_replicate:
  "0 \<le> n \<Longrightarrow>
   np_position (replicate (nat n) v) i =
     (if - n \<le> i \<and> i < n then Inr (nat (if i < 0 then i + n else i)) else Inl IndexError)"
  by (simp add: np_position_def Let_def)

lemma np_position_update:
  "np_position (a[k := v]) i = np_position a i"
  by (simp add: np_position_def)

text \<open>The constructor on the two pairs \<open>pauli_x\<close> hands it, which name the same Pauli.\<close>

lemma simplify_same_pauli:
  "new_WeightedPauliOperator [(0, P), (coeff, P)] = (if coeff = 0 then [] else [(coeff, P)])"
  by (simp add: new_WeightedPauliOperator_def simplify_def)

lemma pauli_x_value:
  assumes "0 \<le> n"
  shows "pauli_x n q coeff =
           (if - n \<le> q \<and> q < n
            then Inr (if coeff = 0 then []
                      else [(coeff, \<lparr>z_bits = replicate (nat n) False,
                                     x_bits = (replicate (nat n) False)
                                        [nat (if q < 0 then q + n else q) := True]\<rparr>)])
            else Inl IndexError)"
  using assms
  by (simp add: pauli_x_def np_zeros_nonneg np_getitem_def np_setitem_def
      np_position_replicate and_then_def new_Pauli_def Let_def map_update
      simplify_same_pauli)

lemma pauli_z_value:
  assumes "0 \<le> n"
  shows "pauli_z n q coeff =
           (if - n \<le> q \<and> q < n then Inl (NameError ''pauli'') else Inl IndexError)"
  using assms
  by (simp add: pauli_z_def np_zeros_nonneg np_getitem_def np_setitem_def
      np_position_replicate and_then_def Let_def)

lemma product_pauli_z_value:
  assumes "0 \<le> n"
  shows "product_pauli_z n q1 q2 coeff =
           (if (- n \<le> q1 \<and> q1 < n) \<and> (- n \<le> q2 \<and> q2 < n) then Inl (NameError ''p1'')
            else Inl IndexError)"
proof (cases "n = 0")
  case True
  then show ?thesis
    by (simp add: product_pauli_z_def np_zeros_def np_zeros2_def np_getitem_def
        np_position_def and_then_def)
next
  case False
  with assms have pos: "0 < n" by simp
  then have row: "np_getitem (replicate (nat n) (replicate (nat n) (0::real))) 0 =
      Inr (replicate (nat n) 0)"
    by (simp add: np_getitem_def np_position_def and_then_def)
  from pos show ?thesis
    by (simp add: product_pauli_z_def np_zeros_def np_zeros2_def row np_getitem_def
        np_setitem_def np_position_update np_position_replicate and_then_def)
qed

lemma pauli_x_errors: "pauli_x n q coeff = Inl e \<Longrightarrow> e = ValueError \<or> e = IndexError"
  by (auto simp add: pauli_x_def np_zeros_def np_getitem_def np_setitem_def np_position_def
      and_then_def Let_def split: if_splits)

lemma pauli_z_errors:
  "pauli_z n q coeff = Inl e \<Longrightarrow> e = ValueError \<or> e = IndexError \<or> e = NameError ''pauli''"
  by (auto simp add: pauli_z_def np_zeros_def np_getitem_def np_setitem_def np_position_def
      and_then_def Let_def split: if_splits)

lemma product_pauli_z_errors:
  "product_pauli_z n q1 q2 coeff = Inl e \<Longrightarrow>
   e = ValueError \<or> e = IndexError \<or> e = NameError ''p1''"
  by (auto simp add: product_pauli_z_def np_zeros_def np_zeros2_def np_getitem_def
      np_setitem_def np_position_def and_then_def Let_def split: if_splits)

text \<open>
  C8, as the code has it. No operation that takes a qubit index or a number of qubits
  fails with a DimensionError: the failures are numpy's and Python's \<open>IndexError\<close> and
  \<open>TypeError\<close> and the SDK's \<open>CircuitError\<close>. On \<open>n \<ge> 0\<close> qubits \<open>pauli_x\<close>,
  \<open>pauli_z\<close> and \<open>product_pauli_z\<close> raise \<open>IndexError\<close> for an index outside
  \<open>[-n, n)\<close>, and \<open>pauli_x\<close> for no other: for every index in \<open>[-n, n)\<close>, the
  negative ones counting from the end, it returns the operator with \<open>\<sigma>\<^sup>X\<close> on that
  qubit. A register subscript \<open>q[k]\<close> raises \<open>IndexError\<close> exactly outside
  \<open>[-size, size)\<close>. The gate methods \<open>x\<close>, \<open>cx\<close> and \<open>measure\<close> raise
  \<open>CircuitError\<close> exactly when a bit is outside the circuit's registers (\<open>cx\<close> also
  for two equal qubits), and \<open>cx\<close> raises \<open>TypeError\<close> exactly when it is given a
  number of qubits other than two. Each of \<open>pauli_x\<close>, \<open>q[k]\<close>, \<open>x\<close>, \<open>cx\<close> and
  \<open>measure\<close> succeeds when all its indices are in range and its arity matches.
\<close>

theorem index_and_arity_failures:
  assumes "0 \<le> n"
  shows
    "(pauli_x n q coeff = Inl IndexError) = (\<not> (- n \<le> q \<and> q < n)) \<and>
     (- n \<le> q \<and> q < n \<longrightarrow>
        pauli_x n q coeff =
          Inr (if coeff = 0 then []
               else [(coeff, \<lparr>z_bits = replicate (nat n) False,
                              x_bits = (replicate (nat n) False)
                                 [nat (if q < 0 then q + n else q) := True]\<rparr>)])) \<and>
     (\<not> (- n \<le> q \<and> q < n) \<longrightarrow> pauli_z n q coeff = Inl IndexError) \<and>
     (\<not> ((- n \<le> q1 \<and> q1 < n) \<and> (- n \<le> q2 \<and> q2 < n)) \<longrightarrow>
        product_pauli_z n q1 q2 coeff = Inl IndexError) \<and>
     (getitem_reg reg k = Inl IndexError) = (\<not> (- int reg \<le> k \<and> k < int reg)) \<and>
     (0 \<le> k \<and> k < int reg \<longrightarrow> getitem_reg reg k = Inr (nat k)) \<and>
     (qc_x qc i = Inl CircuitError) = (\<not> i < qreg_size qc) \<and>
     (i < qreg_size qc \<longrightarrow> qc_x qc i = Inr (append_instruction qc (XGate i))) \<and>
     (qc_cx qc args = Inl TypeError) = (length args \<noteq> 2) \<and>
     (qc_cx qc [ctl, tgt] = Inl CircuitError) =
        (\<not> (ctl < qreg_size qc \<and> tgt < qreg_size qc) \<or> ctl = tgt) \<and>
     (ctl < qreg_size qc \<and> tgt < qreg_size qc \<and> ctl \<noteq> tgt \<longrightarrow>
        qc_cx qc [ctl, tgt] = Inr (append_instruction qc (CnotGate ctl tgt))) \<and>
     (qc_measure qc i j = Inl CircuitError) = (\<not> (i < qreg_size qc \<and> j < creg_size qc)) \<and>
     (i < qreg_size qc \<and> j < creg_size qc \<longrightarrow>
        qc_measure qc i j = Inr (append_instruction qc (Measure i j))) \<and>
     pauli_x n q coeff \<noteq> Inl DimensionError \<and>
     pauli_z n q coeff \<noteq> Inl DimensionError \<and>
     product_pauli_z n q1 q2 coeff \<noteq> Inl DimensionError \<and>
     getitem_reg reg k \<noteq> Inl DimensionError \<and>
     qc_x qc i \<noteq> Inl DimensionError \<and>
     qc_cx qc args \<noteq> Inl DimensionError \<and>
     qc_measure qc i j \<noteq> Inl DimensionError"
proof -
  have x1: "(pauli_x n q coeff = Inl IndexError) = (\<not> (- n \<le> q \<and> q < n))"
    using assms by (simp add: pauli_x_value)
  have x2: "- n \<le> q \<and> q < n \<longrightarrow>
        pauli_x n q coeff =
          Inr (if coeff = 0 then []
               else [(coeff, \<lparr>z_bits = replicate (nat n) False,
                              x_bits = (replicate (nat n) False)
                                 [nat (if q < 0 then q + n else q) := True]\<rparr>)])"
    using assms by (simp add: pauli_x_value)
  have z1: "\<not> (- n \<le> q \<and> q < n) \<longrightarrow> pauli_z n q coeff = Inl IndexError"
    using assms by (simp add: pauli_z_value)
  have p1: "\<not> ((- n \<le> q1 \<and> q1 < n) \<and> (- n \<le> q2 \<and> q2 < n)) \<longrightarrow>
        product_pauli_z n q1 q2 coeff = Inl IndexError"
    using assms by (simp add: product_pauli_z_value)
  have r1: "(getitem_reg reg k = Inl IndexError) = (\<not> (- int reg \<le> k \<and> k < int reg))"
    by (simp add: getitem_reg_def Let_def)
  have r2: "0 \<le> k \<and> k < int reg \<longrightarrow> getitem_reg reg k = Inr (nat k)"
    by (simp add: getitem_reg_def Let_def)
  have g1: "(qc_x qc i = Inl CircuitError) = (\<not> i < qreg_size qc)"
    by (simp add: qc_x_def)
  have g2: "i < qreg_size qc \<longrightarrow> qc_x qc i = Inr (append_instruction qc (XGate i))"
    by (simp add: qc_x_def)
  have c1: "(qc_cx qc args = Inl TypeError) = (length args \<noteq> 2)"
    by (auto simp add: qc_cx_def split: list.splits)
  have c2: "(qc_cx qc [ctl, tgt] = Inl CircuitError) =
        (\<not> (ctl < qreg_size qc \<and> tgt < qreg_size qc) \<or> ctl = tgt)"
    by (simp add: qc_cx_def)
  have c3: "ctl < qreg_size qc \<and> tgt < qreg_size qc \<and> ctl \<noteq> tgt \<longrightarrow>
        qc_cx qc [ctl, tgt] = Inr (append_instruction qc (CnotGate ctl tgt))"
    by (simp add: qc_cx_def)
  have m1: "(qc_measure qc i j = Inl CircuitError) =
        (\<not> (i < qreg_size qc \<and> j < creg_size qc))"
    by (simp add: qc_measure_def)
  have m2: "i < qreg_size qc \<and> j < creg_size qc \<longrightarrow>
        qc_measure qc i j = Inr (append_instruction qc (Measure i j))"
    by (simp add: qc_measure_def)
  have d1: "pauli_x n q coeff \<noteq> Inl DimensionError"
    using pauli_x_errors [of n q coeff DimensionError] by auto
  have d2: "pauli_z n q coeff \<noteq> Inl DimensionError"
    using pauli_z_errors [of n q coeff DimensionError] by auto
  have d3: "product_pauli_z n q1 q2 coeff \<noteq> Inl DimensionError"
    using product_pauli_z_errors [of n q1 q2 coeff DimensionError] by auto
  have d4: "getitem_reg reg k \<noteq> Inl DimensionError"
    by (simp add: getitem_reg_def Let_def)
  have d5: "qc_x qc i \<noteq> Inl DimensionError"
    by (simp add: qc_x_def)
  have d6: "qc_cx qc args \<noteq> Inl DimensionError"
    by (auto simp add: qc_cx_def split: list.splits)
  have d7: "qc_measure qc i j \<noteq> Inl DimensionError"
    by (simp add: qc_measure_def)
  show ?thesis
    by (intro conjI x1 x2 z1 p1 r1 r2 g1 g2 c1 c2 c3 m1 m2 d1 d2 d3 d4 d5 d6 d7)
qed

theorem index_and_arity_failures_witness:
  "pauli_x 3 (- 3) 5 =
     Inr [(5, \<lparr>z_bits = [False, False, False], x_bits = [True, False, False]\<rparr>)] \<and>
   pauli_x 3 3 5 = Inl IndexError \<and>
   pauli_z 3 3 5 = Inl IndexError \<and>
   product_pauli_z 3 0 3 5 = Inl IndexError \<and>
   getitem_reg 3 3 = Inl IndexError \<and>
   getitem_reg 3 2 = Inr 2 \<and>
   qc_x (new_circuit 3 1) 3 = Inl CircuitError \<and>
   qc_x (new_circuit 3 1) 2 = Inr \<lparr>qreg_size = 3, creg_size = 1, data = [XGate 2]\<rparr> \<and>
   qc_cx (new_circuit 3 1) [0, 1, 2] = Inl TypeError \<and>
   qc_cx (new_circuit 3 1) [0, 7] = Inl CircuitError \<and>
   qc_cx (new_circuit 3 1) [0, 1] =
     Inr \<lparr>qreg_size = 3, creg_size = 1, data = [CnotGate 0 1]\<rparr> \<and>
   qc_measure (new_circuit 3 1) 3 1 = Inl CircuitError \<and>
   qc_measure (new_circuit 3 1) 2 0 =
     Inr \<lparr>qreg_size = 3, creg_size = 1, data = [Measure 2 0]\<rparr>"
proof -
  have n: "(0::int) \<le> 3" by simp
  show ?thesis
    using
      index_and_arity_failures [OF n, of "- 3" 5 0 0 3 2 "new_circuit 3 1" 2 "[0, 1, 2]" 0 1 0]
      index_and_arity_failures [OF n, of 3 5 0 3 3 3 "new_circuit 3 1" 3 "[0, 1, 2]" 0 7 1]
    by (simp add: eval_nat_numeral new_circuit_def append_instruction_def)
qed

text \<open>
  The claim has every index outside \<open>[0, N)\<close> fail. On two qubits the index \<open>-1\<close> is
  outside \<open>[0, 2)\<close> and \<open>pauli_x\<close> returns the operator on qubit 1.
\<close>

theorem pauli_x_negative_index_succeeds:
  "\<not> (0 \<le> (- 1 :: int) \<and> (- 1 :: int) < 2) \<and>
   pauli_x 2 (- 1) 1 = Inr [(1, \<lparr>z_bits = [False, False], x_bits = [False, True]\<rparr>)]"
  by (simp add: pauli_x_def np_zeros_def np_getitem_def np_setitem_def np_position_def
      and_then_def new_Pauli_def Let_def eval_nat_numeral simplify_same_pauli)

section \<open>The objective returns no number\<close>

text \<open>\<open>product_pauli_z\<close> raises on every call, so the cell that assigns \<open>Hc\<close> binds nothing.\<close>

lemma product_pauli_z_raises: "product_pauli_z n q1 q2 c \<noteq> Inr op"
  by (auto simp add: product_pauli_z_def and_then_def split: sum.splits)

lemma product_pauli_z_in_range:
  "product_pauli_z 2 0 0 c = Inl (NameError ''p1'')"
  by (simp add: product_pauli_z_value)

text \<open>
  C2 asks the optimizer, run on the objective \<open>evaluate_circuit\<close>, to end within
  \<open>1e-3\<close> of \<open>-1.0\<close>. In the notebook as it is written the objective raises
  \<open>NameError\<close> at every point the optimizer could ask for, so there is no value to
  converge.
\<close>

theorem objective_raises_in_notebook:
  "evaluate_circuit s (notebook_globals hm init) [b, c] = Inl (NameError ''Hc'')"
  by (simp add: evaluate_circuit_def create_circuit_def create_circuit_term_def
      notebook_globals_def lookup_def and_then_def)

text \<open>
  C7 asks for the real number \<open>\<Sum> coefficient \<times> \<langle>state|Pauli string|state\<rangle>\<close>, which the
  notebook says \<open>evaluate_circuit\<close> returns. Whatever the globals, the SDK and the
  argument are, \<open>evaluate_circuit\<close> returns no number.
\<close>

theorem evaluate_circuit_no_number: "evaluate_circuit s g beta_gamma \<noteq> Inr (PyFloat v)"
  by (auto simp add: evaluate_circuit_def and_then_def split: list.splits sum.splits)




end
